theory Spec2Isabelle
  imports Main "HOL-Library.Sublist"
begin

section \<open>Strings as the scripts use them\<close>

text \<open>
  A JavaScript string is modelled as a \<^typ>\<open>string\<close>. The three tests the scripts use are
  \<open>startsWith\<close>, \<open>endsWith\<close> and \<open>includes\<close> (here \<open>includes_str\<close>); they are
  the prefix, suffix and contiguous sublist relations on character lists.
\<close>

definition startsWith :: "string \<Rightarrow> string \<Rightarrow> bool" where
  "startsWith s p = prefix p s"

definition endsWith :: "string \<Rightarrow> string \<Rightarrow> bool" where
  "endsWith s p = suffix p s"

definition includes_str :: "string \<Rightarrow> string \<Rightarrow> bool" where
  "includes_str s p = sublist p s"

text \<open>
  \<open>s.replace(pat, '')\<close> with a string pattern removes the first occurrence of \<open>pat\<close>
  in \<open>s\<close>, wherever it stands, and leaves \<open>s\<close> alone when there is none.
\<close>

fun replace_first_by_empty :: "string \<Rightarrow> string \<Rightarrow> string" where
  "replace_first_by_empty pat [] = []"
| "replace_first_by_empty pat (c # cs) =
     (if prefix pat (c # cs) then drop (length pat) (c # cs)
      else c # replace_first_by_empty pat cs)"

section \<open>AJAX navigation: eligibility of a link\<close>

definition AJAX_PAGES :: "string list" where
  "AJAX_PAGES =
    [''/index.html'',
     ''/pages/dashboard.html'',
     ''/pages/workout.html'',
     ''/pages/nutrition.html'',
     ''/pages/profile.html'',
     ''/pages/workout-completion.html'',
     ''index.html'',
     ''pages/dashboard.html'',
     ''pages/workout.html'',
     ''pages/nutrition.html'',
     ''pages/profile.html'',
     ''pages/workout-completion.html'',
     ''dashboard.html'',
     ''workout.html'',
     ''nutrition.html'',
     ''profile.html'',
     ''workout-completion.html'',
     ''../index.html'',
     ''/'',
     ''./'',
     ''../'']"

text \<open>
  \<open>shouldUseAjax(href)\<close> reads \<open>window.location.origin\<close> and \<open>window.location.host\<close>;
  they are the first two arguments here. The argument is what \<open>getAttribute('href')\<close>
  gave: \<open>None\<close> is \<open>null\<close>, and \<open>!href\<close> holds of \<open>null\<close> and of the empty string.
\<close>

definition shouldUseAjax :: "string \<Rightarrow> string \<Rightarrow> string option \<Rightarrow> bool" where
  "shouldUseAjax origin host h =
     (case h of
        None \<Rightarrow> False
      | Some href \<Rightarrow>
          if href = [] then False
          else if startsWith href ''http'' \<and> \<not> includes_str href host then False
          else if startsWith href ''#'' \<or> startsWith href ''javascript:'' \<or>
                  startsWith href ''mailto:'' \<or> startsWith href ''tel:'' then False
          else if includes_str href ''?'' \<and>
                  (includes_str href ''access_token'' \<or> includes_str href ''refresh_token'' \<or>
                   includes_str href ''type='' \<or> includes_str href ''token_hash'' \<or>
                   includes_str href ''code='') then False
          else (let normalizedHref = replace_first_by_empty origin href
                in list_ex (\<lambda>page. endsWith normalizedHref page \<or> normalizedHref = page)
                     AJAX_PAGES))"

text \<open>
  The eligibility rule as the specification words it: the origin is stripped as a prefix,
  and the authentication markers are looked for in the query string, the part of the href
  after its first question mark.
\<close>

definition strip_origin_prefix :: "string \<Rightarrow> string \<Rightarrow> string" where
  "strip_origin_prefix origin href =
     (if prefix origin href then drop (length origin) href else href)"

definition query_string :: "string \<Rightarrow> string option" where
  "query_string href =
     (case dropWhile (\<lambda>c. c \<noteq> CHR ''?'') href of [] \<Rightarrow> None | _ # q \<Rightarrow> Some q)"

definition AUTH_MARKERS :: "string list" where
  "AUTH_MARKERS = [''access_token'', ''refresh_token'', ''type='', ''token_hash'', ''code='']"

definition excluded_prefix :: "string \<Rightarrow> string \<Rightarrow> bool" where
  "excluded_prefix host href \<longleftrightarrow>
     (startsWith href ''http'' \<and> \<not> includes_str href host) \<or>
     startsWith href ''#'' \<or> startsWith href ''javascript:'' \<or>
     startsWith href ''mailto:'' \<or> startsWith href ''tel:''"

definition on_allow_list :: "string \<Rightarrow> bool" where
  "on_allow_list s = list_ex (\<lambda>page. endsWith s page \<or> s = page) AJAX_PAGES"

definition query_has_auth_marker :: "string \<Rightarrow> bool" where
  "query_has_auth_marker href =
     (case query_string href of
        None \<Rightarrow> False
      | Some q \<Rightarrow> list_ex (\<lambda>m. includes_str q m) AUTH_MARKERS)"

definition spec_eligible :: "string \<Rightarrow> string \<Rightarrow> string \<Rightarrow> bool" where
  "spec_eligible origin host href \<longleftrightarrow>
     on_allow_list (strip_origin_prefix origin href) \<and>
     \<not> excluded_prefix host href \<and>
     \<not> query_has_auth_marker href"

section \<open>AJAX navigation: the fetch pipeline and its lock\<close>

text \<open>
  \<open>navigateAjax\<close> is an asynchronous function. It runs until it waits for \<open>fetch\<close>, is
  resumed when the request settles, waits again for \<open>response.text()\<close>, and is resumed a
  second time. Between these points the event loop may deliver any other event, among them
  a further call of \<open>navigateAjax\<close>. The model is a transition function on the state of
  the page: the module variable \<open>isNavigating\<close>, the suspended activations of
  \<open>navigateAjax\<close>, the URL of the document, and the trace of the calls made to the browser
  so far.
\<close>

record page_content =
  title :: string
  body :: string
  bodyClasses :: string
  scripts :: "string list"
  externalScripts :: "string list"

text \<open>
  \<open>resolveUrl\<close> and \<open>parsePageContent\<close> delegate to the browser (an anchor element, the
  \<open>DOMParser\<close>); the browser supplies them, together with whether the global function
  \<open>updateDvhProperty\<close> exists at the moment. An anchor element resolves its href against
  the URL of the document, which is the first argument of \<open>resolveUrl\<close> here.
\<close>

record host =
  resolveUrl :: "string \<Rightarrow> string \<Rightarrow> string"
  parsePageContent :: "string \<Rightarrow> page_content"
  updateDvhProperty_exists :: bool

datatype effect =
    Fetch string
  | SetTitle string
  | SetBodyInnerHTML string
  | SetBodyClassName string
  | PushState bool string string
  | AppendScript string
  | DispatchEvent string
  | UpdateDvhProperty
  | ScrollTo nat nat
  | SetLocationHref string
  | Reload

datatype phase = AwaitingFetch | AwaitingText

record activation =
  href :: string
  pushState :: bool
  absoluteUrl :: string
  phase :: phase

record page =
  isNavigating :: bool
  suspended :: "activation list"
  documentURL :: string
  trace :: "effect list"

text \<open>\<open>response.ok\<close>: the status is in the range 200 to 299.\<close>

definition response_ok :: "nat \<Rightarrow> bool" where
  "response_ok status \<longleftrightarrow> 200 \<le> status \<and> status \<le> 299"

definition executeScripts :: "string list \<Rightarrow> effect list" where
  "executeScripts ss = map AppendScript ss"

definition reinitializeApp :: "host \<Rightarrow> effect list" where
  "reinitializeApp h =
     [DispatchEvent ''ajax-navigation-complete'',
      DispatchEvent ''DOMContentLoaded'',
      DispatchEvent ''load''] @
     (if updateDvhProperty_exists h then [UpdateDvhProperty] else []) @
     [ScrollTo 0 0]"

text \<open>
  The call itself: the part of \<open>navigateAjax\<close> before the first \<open>await\<close>. A call that
  finds the lock taken returns before the \<open>try\<close> statement, so its \<open>finally\<close> clause does
  not run.
\<close>

definition navigateAjax :: "host \<Rightarrow> string \<Rightarrow> bool \<Rightarrow> page \<Rightarrow> page" where
  "navigateAjax h hrf push st =
     (if isNavigating st then st
      else st\<lparr>isNavigating := True,
              suspended := suspended st @
                [\<lparr>href = hrf, pushState = push,
                  absoluteUrl = resolveUrl h (documentURL st) hrf,
                  phase = AwaitingFetch\<rparr>],
              trace := trace st @ [Fetch (resolveUrl h (documentURL st) hrf)]\<rparr>)"

definition without :: "nat \<Rightarrow> 'a list \<Rightarrow> 'a list" where
  "without i xs = take i xs @ drop (Suc i) xs"

text \<open>The \<open>catch\<close> clause followed by the \<open>finally\<close> clause.\<close>

definition fall_back :: "nat \<Rightarrow> page \<Rightarrow> page" where
  "fall_back i st =
     st\<lparr>isNavigating := False,
        suspended := without i (suspended st),
        trace := trace st @ [SetLocationHref (href (suspended st ! i))]\<rparr>"

text \<open>
  The request of activation \<open>i\<close> settles: \<open>None\<close> is a rejected promise (a network error),
  \<open>Some status\<close> a response with that status.
\<close>

definition fetch_settled :: "nat \<Rightarrow> nat option \<Rightarrow> page \<Rightarrow> page" where
  "fetch_settled i outcome st =
     (if i < length (suspended st) \<and> phase (suspended st ! i) = AwaitingFetch then
        (case outcome of
           None \<Rightarrow> fall_back i st
         | Some status \<Rightarrow>
             if \<not> response_ok status then fall_back i st
             else st\<lparr>suspended := (suspended st)[i := (suspended st ! i)\<lparr>phase := AwaitingText\<rparr>]\<rparr>)
      else st)"

text \<open>
  The body of the response of activation \<open>i\<close> arrives (\<open>None\<close>: reading it failed). The
  rest of the \<open>try\<close> block runs, then the \<open>finally\<close> clause; \<open>history.pushState\<close> makes
  the resolved URL the URL of the document. The calls into the document are taken to return
  normally, and the removal of each replayed script element after 100 ms is left out.
\<close>

definition text_settled :: "host \<Rightarrow> nat \<Rightarrow> string option \<Rightarrow> page \<Rightarrow> page" where
  "text_settled h i outcome st =
     (if i < length (suspended st) \<and> phase (suspended st ! i) = AwaitingText then
        (case outcome of
           None \<Rightarrow> fall_back i st
         | Some html \<Rightarrow>
             (let a = suspended st ! i;
                  pageContent = parsePageContent h html
              in st\<lparr>isNavigating := False,
                    suspended := without i (suspended st),
                    documentURL := (if pushState a then absoluteUrl a else documentURL st),
                    trace := trace st @
                      [SetTitle (title pageContent),
                       SetBodyInnerHTML (body pageContent),
                       SetBodyClassName (bodyClasses pageContent)] @
                      (if pushState a
                       then [PushState True (title pageContent) (absoluteUrl a)] else []) @
                      executeScripts (scripts pageContent) @
                      reinitializeApp h\<rparr>))
      else st)"

text \<open>
  \<open>handlePopState\<close>: the browser has moved along its history to an entry with the URL
  \<open>url\<close>, which is now \<open>window.location.href\<close>; \<open>ajaxNav\<close> tells whether the state of the
  entry carries the marker.
\<close>

definition handlePopState :: "host \<Rightarrow> bool \<Rightarrow> string \<Rightarrow> page \<Rightarrow> page" where
  "handlePopState h ajaxNav url st =
     (let moved = st\<lparr>documentURL := url\<rparr>
      in if ajaxNav then navigateAjax h url False moved
         else moved\<lparr>trace := trace moved @ [Reload]\<rparr>)"

datatype event =
    Call string bool
  | FetchSettled nat "nat option"
  | TextSettled nat "string option"
  | PopState bool string

fun step :: "host \<Rightarrow> event \<Rightarrow> page \<Rightarrow> page" where
  "step h (Call hrf push) st = navigateAjax h hrf push st"
| "step h (FetchSettled i outcome) st = fetch_settled i outcome st"
| "step h (TextSettled i outcome) st = text_settled h i outcome st"
| "step h (PopState ajaxNav url) st = handlePopState h ajaxNav url st"

text \<open>
  The pages that can arise: the script starts with the lock free and no activation,
  wherever the document is and whatever the browser has been asked before, and every event
  leads to the next state, with what the browser supplies at that moment.
\<close>

inductive reachable :: "page \<Rightarrow> bool" where
  start: "reachable \<lparr>isNavigating = False, suspended = [], documentURL = u, trace = t\<rparr>"
| after: "reachable st \<Longrightarrow> reachable (step h e st)"

section \<open>The navigation overlay\<close>

text \<open>
  The overlay element is found by \<open>document.getElementById\<close>; it is in the document once
  \<open>insertOverlay\<close> has run, and it is active when its class list holds \<open>active\<close>.
\<close>

record overlay =
  in_document :: bool
  active :: bool

definition showNavOverlay :: "overlay \<Rightarrow> overlay" where
  "showNavOverlay ov = (if in_document ov then ov\<lparr>active := True\<rparr> else ov)"

definition hideNavOverlay :: "overlay \<Rightarrow> overlay" where
  "hideNavOverlay ov = (if in_document ov then ov\<lparr>active := False\<rparr> else ov)"

text \<open>
  What the click listener reads of the anchor found by \<open>e.target.closest('a')\<close>:
  \<open>getAttribute('href')\<close> (\<open>None\<close> when the attribute is missing), the \<open>target\<close>
  property and \<open>hasAttribute('download')\<close>.
\<close>

record anchor =
  href_attribute :: "string option"
  target :: string
  has_download :: bool

text \<open>
  The listener returns the overlay and whether it called \<open>preventDefault\<close>; it never
  does (it is registered as passive).
\<close>

definition click_listener :: "anchor option \<Rightarrow> overlay \<Rightarrow> overlay \<times> bool" where
  "click_listener link ov =
     (case link of
        None \<Rightarrow> (ov, False)
      | Some a \<Rightarrow>
          (case href_attribute a of
             None \<Rightarrow> (ov, False)
           | Some hrf \<Rightarrow>
               if hrf = [] \<or> startsWith hrf ''http'' \<or> startsWith hrf ''#'' \<or>
                  startsWith hrf ''javascript:'' \<or> target a = ''_blank'' \<or> has_download a
               then (ov, False)
               else (showNavOverlay ov, False)))"

text \<open>The condition under which the specification has the overlay shown.\<close>

definition spec_masks :: "anchor \<Rightarrow> bool" where
  "spec_masks a \<longleftrightarrow>
     (case href_attribute a of
        None \<Rightarrow> False
      | Some hrf \<Rightarrow> \<not> startsWith hrf ''http'' \<and> \<not> startsWith hrf ''#'' \<and>
                    \<not> startsWith hrf ''javascript:'') \<and>
     target a \<noteq> ''_blank'' \<and> \<not> has_download a"

section \<open>Workout history, favourites and exercise weights\<close>

subsection \<open>JSON values and the store\<close>

text \<open>
  A value read by \<open>JSON.parse\<close>. An object is the list of its own properties, each key
  once, in the order in which they were added; a JavaScript engine lists keys that are
  array indices before the others, an order on which nothing below depends. Numbers are the
  integers (identifiers taken from \<open>Date.now()\<close>, durations in seconds).
\<close>

datatype json =
    JNull
  | JBool bool
  | JNum int
  | JStr string
  | JArr "json list"
  | JObj "(string \<times> json) list"

datatype js_error = TypeError

text \<open>The values that count as true in a condition.\<close>

fun truthy :: "json \<Rightarrow> bool" where
  "truthy JNull = False"
| "truthy (JBool b) = b"
| "truthy (JNum n) = (n \<noteq> 0)"
| "truthy (JStr s) = (s \<noteq> [])"
| "truthy (JArr xs) = True"
| "truthy (JObj ps) = True"

text \<open>
  \<open>result.status\<close>, \<open>result.weights\<close>: reading a named property of a parsed value. On
  \<open>null\<close> the read throws; an object has the property if it is among its own; the other
  values have no property of these names, and nothing of these names is inherited.
\<close>

fun property :: "json \<Rightarrow> string \<Rightarrow> js_error + json option" where
  "property JNull k = Inl TypeError"
| "property (JObj ps) k = Inr (map_of ps k)"
| "property v k = Inr None"

text \<open>Setting one property: an existing key keeps its place, a new key goes last.\<close>

fun set_property :: "string \<Rightarrow> json \<Rightarrow> (string \<times> json) list \<Rightarrow> (string \<times> json) list" where
  "set_property k v [] = [(k, v)]"
| "set_property k v (p # ps) = (if fst p = k then (k, v) # ps else p # set_property k v ps)"

text \<open>
  The spread \<open>{...target, ...source}\<close> on two lists of properties: the properties of the
  source are defined on a copy of the target one after the other.
\<close>

definition copy_properties ::
  "(string \<times> json) list \<Rightarrow> (string \<times> json) list \<Rightarrow> (string \<times> json) list" where
  "copy_properties tgt src = fold (\<lambda>(k, v). set_property k v) src tgt"

text \<open>
  An object made by \<open>JSON.parse\<close> or by an object literal inherits from
  \<open>Object.prototype\<close>. These are the names of the members of \<open>Object.prototype\<close> in a
  browser; each of them is a function, but \<open>__proto__\<close>, an accessor whose getter gives
  \<open>Object.prototype\<close> itself.
\<close>

definition Object_prototype :: "string list" where
  "Object_prototype =
     [''constructor'', ''hasOwnProperty'', ''isPrototypeOf'', ''propertyIsEnumerable'',
      ''toLocaleString'', ''toString'', ''valueOf'', ''__proto__'',
      ''__defineGetter__'', ''__defineSetter__'', ''__lookupGetter__'', ''__lookupSetter__'']"

text \<open>
  \<open>Object.assign(target, source)\<close> sets the properties of the source by assignment. An
  assignment to \<open>__proto__\<close> on an object with no own property of that name runs the
  inherited setter and adds no property.
\<close>

definition Object_assign ::
  "(string \<times> json) list \<Rightarrow> (string \<times> json) list \<Rightarrow> (string \<times> json) list" where
  "Object_assign tgt src =
     fold (\<lambda>(k, v) t. if k = ''__proto__'' \<and> map_of t k = None then t
                       else set_property k v t) src tgt"

text \<open>The decimal numeral of an array index, the key under which a spread copies it.\<close>

fun digits :: "nat \<Rightarrow> nat \<Rightarrow> string" where
  "digits 0 n = []"
| "digits (Suc fuel) n =
     (if n < 10 then [char_of (48 + n)]
      else digits fuel (n div 10) @ [char_of (48 + n mod 10)])"

definition index_key :: "nat \<Rightarrow> string" where
  "index_key n = digits (Suc n) n"

text \<open>
  The own enumerable properties a spread copies from any value: those of an object, the
  elements of an array and the characters of a string under their indices, none from
  \<open>null\<close>, a boolean or a number.
\<close>

fun own_properties :: "json \<Rightarrow> (string \<times> json) list" where
  "own_properties (JObj ps) = ps"
| "own_properties (JArr xs) = zip (map index_key [0..<length xs]) xs"
| "own_properties (JStr s) = zip (map index_key [0..<length s]) (map (\<lambda>c. JStr [c]) s)"
| "own_properties v = []"

text \<open>
  What \<open>localStorage.getItem\<close> gives for a key whose text the module reads with
  \<open>JSON.parse\<close>: nothing, the empty string, a text that is not JSON, or the JSON text of
  a value (what \<open>JSON.stringify\<close> wrote).
\<close>

datatype 'a item = Absent | EmptyText | NotJson | JsonText 'a

text \<open>
  The store, with the keys the module uses. The history and the favourites may hold any
  JSON value; under the weights key a JSON text is the text of an object, which is what
  the module writes there. Writing to the store does not fail.
\<close>

record localStorage =
  loggedUser :: "string option"
  HISTORY :: "json item"
  FAVORITES :: "json item"
  WEIGHTS :: "(string \<times> json) list item"
  WEIGHTS_SYNCED :: "string option"

subsection \<open>Cloud synchronisation of the weights\<close>

text \<open>
  The endpoint is reached by \<open>fetch\<close> with the query parameters \<open>action\<close>, \<open>email\<close> and,
  for a save, \<open>weights\<close>. The reply is a rejected promise (a network error) or a response
  with a status and a body text (\<open>None\<close>: reading the body failed). The configured
  \<open>GOOGLE_SCRIPT_URL\<close> is taken to be a valid URL.
\<close>

record request =
  action :: string
  email :: string
  weights :: "(string \<times> json) list option"

datatype reply = Rejected | Response nat "string option"

text \<open>
  The network and the parser of response bodies are supplied by the browser:
  \<open>JSON_parse text = None\<close> when \<open>JSON.parse(text)\<close> throws.
\<close>

record browser =
  fetch :: "request \<Rightarrow> reply"
  JSON_parse :: "string \<Rightarrow> json option"
  toISOString :: string

definition getCurrentUserEmail :: "localStorage \<Rightarrow> string option" where
  "getCurrentUserEmail st = loggedUser st"

definition mark_synced :: "browser \<Rightarrow> localStorage \<Rightarrow> localStorage" where
  "mark_synced b st = st\<lparr>WEIGHTS_SYNCED := Some (toISOString b)\<rparr>"

text \<open>
  \<open>syncWeightsToCloud\<close>. The inner \<open>catch\<close> is entered when the body is not JSON, and
  also when it is the JSON text \<open>null\<close>, on which reading \<open>result.status\<close> throws.
\<close>

definition syncWeightsToCloud ::
  "browser \<Rightarrow> (string \<times> json) list \<Rightarrow> localStorage \<Rightarrow> bool \<times> localStorage" where
  "syncWeightsToCloud b ws st =
     (case getCurrentUserEmail st of
        None \<Rightarrow> (False, st)
      | Some userEmail \<Rightarrow>
          if userEmail = [] then (False, st)
          else
            (case fetch b \<lparr>action = ''saveWeights'', email = userEmail, weights = Some ws\<rparr> of
               Rejected \<Rightarrow> (False, st)
             | Response status content \<Rightarrow>
                 if \<not> response_ok status then (False, st)
                 else
                   (case content of
                      None \<Rightarrow> (False, st)
                    | Some text \<Rightarrow>
                        (let on_parse_error =
                               (if includes_str text ''success'' \<or> response_ok status
                                then (True, mark_synced b st)
                                else (False, st))
                         in case JSON_parse b text of
                              None \<Rightarrow> on_parse_error
                            | Some result \<Rightarrow>
                                (case property result ''status'' of
                                   Inl e \<Rightarrow> on_parse_error
                                 | Inr s \<Rightarrow>
                                     if s = Some (JStr ''success'')
                                     then (True, mark_synced b st)
                                     else (False, st))))))"

definition getExerciseWeightsLocal :: "localStorage \<Rightarrow> (string \<times> json) list" where
  "getExerciseWeightsLocal st =
     (case WEIGHTS st of JsonText ws \<Rightarrow> ws | _ \<Rightarrow> [])"

definition getExerciseWeights :: "localStorage \<Rightarrow> (string \<times> json) list" where
  "getExerciseWeights st = getExerciseWeightsLocal st"

text \<open>
  \<open>loadWeightsFromCloud\<close>; \<open>None\<close> is the result \<open>null\<close>. \<open>response.json()\<close> fails when
  the body cannot be read or is not JSON; the status of the response is not looked at.
\<close>

definition loadWeightsFromCloud ::
  "browser \<Rightarrow> localStorage \<Rightarrow> (string \<times> json) list option \<times> localStorage" where
  "loadWeightsFromCloud b st =
     (case getCurrentUserEmail st of
        None \<Rightarrow> (None, st)
      | Some userEmail \<Rightarrow>
          if userEmail = [] then (None, st)
          else
            (case fetch b \<lparr>action = ''getWeights'', email = userEmail, weights = None\<rparr> of
               Rejected \<Rightarrow> (None, st)
             | Response status content \<Rightarrow>
                 (case content of
                    None \<Rightarrow> (None, st)
                  | Some text \<Rightarrow>
                      (case JSON_parse b text of
                         None \<Rightarrow> (None, st)
                       | Some result \<Rightarrow>
                           (case property result ''status'' of
                              Inl e \<Rightarrow> (None, st)
                            | Inr s \<Rightarrow>
                                if s = Some (JStr ''success'') then
                                  (case property result ''weights'' of
                                     Inl e \<Rightarrow> (None, st)
                                   | Inr None \<Rightarrow> (None, st)
                                   | Inr (Some cloud) \<Rightarrow>
                                       if truthy cloud then
                                         (let localWeights = getExerciseWeightsLocal st;
                                              mergedWeights =
                                                copy_properties localWeights (own_properties cloud)
                                          in (Some mergedWeights,
                                              st\<lparr>WEIGHTS := JsonText mergedWeights\<rparr>))
                                       else (None, st))
                                else (None, st))))))"

text \<open>
  What a read of a property of a stored object can give: a stored value, or the member of
  \<open>Object.prototype\<close> of the name that was read.
\<close>

datatype js_value = Stored json | Builtin string

text \<open>
  \<open>getExerciseWeight\<close>; \<open>None\<close> is the result \<open>null\<close>. The read \<open>weights[exerciseName]\<close>
  finds an own property first and a member of \<open>Object.prototype\<close> otherwise; every such
  member is truthy.
\<close>

definition getExerciseWeight :: "localStorage \<Rightarrow> string \<Rightarrow> js_value option" where
  "getExerciseWeight st exerciseName =
     (case map_of (getExerciseWeights st) exerciseName of
        Some v \<Rightarrow> if truthy v then Some (Stored v) else None
      | None \<Rightarrow>
          if exerciseName \<in> set Object_prototype then Some (Builtin exerciseName) else None)"

text \<open>
  \<open>updateExerciseWeights\<close>, first the part that runs before the function waits for the
  network, then the whole of it.
\<close>

definition updateExerciseWeights_local ::
  "(string \<times> json) list \<Rightarrow> localStorage \<Rightarrow> (string \<times> json) list \<times> localStorage" where
  "updateExerciseWeights_local newWeights st =
     (let ws = Object_assign (getExerciseWeights st) newWeights
      in (ws, st\<lparr>WEIGHTS := JsonText ws\<rparr>))"

definition updateExerciseWeights ::
  "browser \<Rightarrow> (string \<times> json) list \<Rightarrow> localStorage \<Rightarrow> bool \<times> localStorage" where
  "updateExerciseWeights b newWeights st =
     (case updateExerciseWeights_local newWeights st of
        (ws, st') \<Rightarrow> syncWeightsToCloud b ws st')"

subsection \<open>Workout history\<close>

text \<open>
  The read falls back to the empty list when the key is missing, when its text is empty
  and when \<open>JSON.parse\<close> throws.
\<close>

definition getWorkoutHistory :: "localStorage \<Rightarrow> json" where
  "getWorkoutHistory st = (case HISTORY st of JsonText v \<Rightarrow> v | _ \<Rightarrow> JArr [])"

text \<open>
  The entry built from the arguments and the two readings of the clock, \<open>Date.now()\<close> and
  \<open>new Date().toISOString()\<close>.
\<close>

definition new_entry :: "int \<Rightarrow> string \<Rightarrow> string \<Rightarrow> int \<Rightarrow> (string \<times> json) list \<Rightarrow> json" where
  "new_entry now completedAt workoutName duration exerciseWeights =
     JObj [(''id'', JNum now),
           (''workoutName'', JStr workoutName),
           (''duration'', JNum duration),
           (''completedAt'', JStr completedAt),
           (''exerciseWeights'', JObj exerciseWeights)]"

text \<open>
  \<open>addWorkoutToHistory\<close>; \<open>None\<close> is the result \<open>null\<close> of the \<open>catch\<close> clause, entered
  when the stored history is not an array and so has no \<open>unshift\<close>. The call of
  \<open>updateExerciseWeights\<close> is not awaited: when \<open>addWorkoutToHistory\<close> returns, the weights
  are stored and the request is on its way; what happens on its reply touches the
  synchronisation time only.
\<close>

definition addWorkoutToHistory ::
  "int \<Rightarrow> string \<Rightarrow> string \<Rightarrow> int \<Rightarrow> (string \<times> json) list \<Rightarrow> localStorage
     \<Rightarrow> json option \<times> localStorage" where
  "addWorkoutToHistory now completedAt workoutName duration exerciseWeights st =
     (case getWorkoutHistory st of
        JArr history \<Rightarrow>
          (let entry = new_entry now completedAt workoutName duration exerciseWeights;
               unshifted = entry # history;
               kept = (if length unshifted > 100 then take 100 unshifted else unshifted);
               st1 = st\<lparr>HISTORY := JsonText (JArr kept)\<rparr>;
               st2 = (if length exerciseWeights > 0
                      then snd (updateExerciseWeights_local exerciseWeights st1) else st1)
           in (Some entry, st2))
      | _ \<Rightarrow> (None, st))"

text \<open>One completed workout: the arguments of a call and the clock at that moment.\<close>

record completion =
  clock_ms :: int
  clock_iso :: string
  workout :: string
  seconds :: int
  lifted :: "(string \<times> json) list"

definition entry_of :: "completion \<Rightarrow> json" where
  "entry_of c = new_entry (clock_ms c) (clock_iso c) (workout c) (seconds c) (lifted c)"

definition addWorkout :: "completion \<Rightarrow> localStorage \<Rightarrow> json option \<times> localStorage" where
  "addWorkout c st =
     addWorkoutToHistory (clock_ms c) (clock_iso c) (workout c) (seconds c) (lifted c) st"

text \<open>A sequence of calls, with the results in the order of the calls.\<close>

fun addWorkouts :: "completion list \<Rightarrow> localStorage \<Rightarrow> json option list \<times> localStorage" where
  "addWorkouts [] st = ([], st)"
| "addWorkouts (c # cs) st =
     (case addWorkout c st of
        (r, st1) \<Rightarrow> (case addWorkouts cs st1 of (rs, st2) \<Rightarrow> (r # rs, st2)))"

subsection \<open>Favourites\<close>

definition getFavorites :: "localStorage \<Rightarrow> json" where
  "getFavorites st = (case FAVORITES st of JsonText v \<Rightarrow> v | _ \<Rightarrow> JArr [])"

text \<open>
  \<open>favorites.indexOf(workoutName)\<close> for a string: the index of the first element that is
  this string, or \<open>-1\<close>.
\<close>

fun indexOf :: "json list \<Rightarrow> string \<Rightarrow> int" where
  "indexOf [] w = - 1"
| "indexOf (x # xs) w =
     (if x = JStr w then 0
      else (let i = indexOf xs w in if i = - 1 then - 1 else i + 1))"

text \<open>
  \<open>toggleFavorite\<close>. A stored value that is not an array has no \<open>push\<close> and no \<open>splice\<close>:
  the \<open>catch\<close> clause returns \<open>false\<close> and nothing is written.
\<close>

definition toggleFavorite :: "string \<Rightarrow> localStorage \<Rightarrow> bool \<times> localStorage" where
  "toggleFavorite workoutName st =
     (case getFavorites st of
        JArr favorites \<Rightarrow>
          (let index = indexOf favorites workoutName;
               favorites' = (if index = - 1 then favorites @ [JStr workoutName]
                             else without (nat index) favorites)
           in (index = - 1, st\<lparr>FAVORITES := JsonText (JArr favorites')\<rparr>))
      | _ \<Rightarrow> (False, st))"

section \<open>Sample inputs\<close>

definition empty_store :: localStorage where
  "empty_store =
     \<lparr>loggedUser = None, HISTORY = Absent, FAVORITES = Absent, WEIGHTS = Absent,
      WEIGHTS_SYNCED = None\<rparr>"

definition two_favorites :: localStorage where
  "two_favorites = empty_store\<lparr>FAVORITES := JsonText (JArr [JStr ''Leg Day'', JStr ''Push''])\<rparr>"

definition cloud_reply_text :: string where
  \<open>cloud_reply_text = ''{"status":"success","weights":{"Squat":"100kg"}}''\<close>

text \<open>A parser that knows the one JSON text of the samples and rejects every other text.\<close>

definition sample_parse :: "string \<Rightarrow> json option" where
  "sample_parse t =
     (if t = cloud_reply_text
      then Some (JObj [(''status'', JStr ''success''),
                       (''weights'', JObj [(''Squat'', JStr ''100kg'')])])
      else None)"

definition sample_browser :: browser where
  "sample_browser =
     \<lparr>fetch = (\<lambda>r. Response 200 (Some cloud_reply_text)),
      JSON_parse = sample_parse,
      toISOString = ''2024-01-01T00:00:00.000Z''\<rparr>"

definition bench_store :: localStorage where
  "bench_store =
     \<lparr>loggedUser = Some ''user@example.com'', HISTORY = Absent, FAVORITES = Absent,
      WEIGHTS = JsonText [(''Bench'', JStr ''80kg'')],
      WEIGHTS_SYNCED = None\<rparr>"

definition blank_squat_store :: localStorage where
  "blank_squat_store =
     bench_store\<lparr>WEIGHTS := JsonText [(''Bench'', JStr ''80kg''), (''Squat'', JStr [])]\<rparr>"

definition error_page_text :: string where
  "error_page_text = ''<html><body>Service unavailable</body></html>''"

definition error_page_browser :: browser where
  "error_page_browser = sample_browser\<lparr>fetch := (\<lambda>r. Response 200 (Some error_page_text))\<rparr>"

definition sample_completion :: "nat \<Rightarrow> completion" where
  "sample_completion i =
     \<lparr>clock_ms = 1700000000000 + int i, clock_iso = ''2023-11-14T22:13:20.000Z'',
      workout = ''Leg Day'', seconds = 1800, lifted = [(''Squat'', JStr ''100kg'')]\<rparr>"

definition sample_workouts :: "completion list" where
  "sample_workouts = map sample_completion [0..<101]"

definition app_origin :: string where
  "app_origin = ''https://viltrum.app''"

definition app_host :: string where
  "app_host = ''viltrum.app''"

definition bare_anchor :: anchor where
  "bare_anchor = \<lparr>href_attribute = Some [], target = [], has_download = False\<rparr>"
definition idle_overlay :: overlay where
  "idle_overlay = \<lparr>in_document = True, active = False\<rparr>"

definition page_link :: anchor where
  "page_link = \<lparr>href_attribute = Some ''pages/workout.html'', target = [], has_download = False\<rparr>"

text \<open>
  URL resolution for the hrefs of the samples: an absolute URL stays, a path that starts
  with a slash is put after the origin, and another path is put after the directory of the
  document (the URL of the document up to its last slash).
\<close>

definition directory_of :: "string \<Rightarrow> string" where
  "directory_of url = rev (dropWhile (\<lambda>c. c \<noteq> CHR ''/'') (rev url))"

definition resolve_sample :: "string \<Rightarrow> string \<Rightarrow> string" where
  "resolve_sample base hrf =
     (if startsWith hrf ''http'' then hrf
      else if startsWith hrf ''/'' then app_origin @ hrf
      else directory_of base @ hrf)"

definition sample_host :: host where
  "sample_host =
     \<lparr>resolveUrl = resolve_sample,
      parsePageContent = (\<lambda>html. \<lparr>title = ''Workout'', body = html, bodyClasses = ''page'',
                                   scripts = [''init()''], externalScripts = []\<rparr>),
      updateDvhProperty_exists = True\<rparr>"

definition fresh_page :: page where
  "fresh_page =
     \<lparr>isNavigating = False, suspended = [], documentURL = ''https://viltrum.app/index.html'',
      trace = []\<rparr>"

definition loading_page :: page where
  "loading_page = step sample_host (Call ''pages/workout.html'' True) fresh_page"

definition receiving_page :: page where
  "receiving_page = step sample_host (FetchSettled 0 (Some 200)) loading_page"

definition loaded_page :: page where
  "loaded_page = step sample_host (TextSettled 0 (Some ''<main></main>'')) receiving_page"

section \<open>Eligibility of a link for AJAX navigation\<close>

lemma includes_question_mark: "includes_str (p @ ''?'' @ q) ''?''"
  unfolding includes_str_def by (rule sublist_appendI)

lemma includes_in_query: "includes_str q m \<Longrightarrow> includes_str (p @ ''?'' @ q) m"
proof -
  assume "includes_str q m"
  then obtain ps ss where "q = ps @ m @ ss" by (auto simp: includes_str_def sublist_def)
  then have "p @ ''?'' @ q = (p @ ''?'' @ ps) @ m @ ss" by simp
  then show ?thesis unfolding includes_str_def sublist_def by blast
qed

lemma not_on_allow_list_empty: "\<not> on_allow_list []"
  by (simp add: on_allow_list_def AJAX_PAGES_def endsWith_def)

text \<open>
  C3, as the code has it. An href is eligible when, with the first occurrence of the origin
  removed, it equals or ends with an entry of the allow-list, it has no excluded prefix, and
  it is not the case that it contains a question mark and, anywhere, one of the
  authentication markers. And an href whose query string (what follows a question mark)
  contains one of the markers is never eligible.
\<close>

theorem shouldUseAjax_eligible:
  "(on_allow_list (replace_first_by_empty origin hrf) \<and>
    \<not> excluded_prefix host hrf \<and>
    \<not> (includes_str hrf ''?'' \<and> list_ex (includes_str hrf) AUTH_MARKERS)
      \<longrightarrow> shouldUseAjax origin host (Some hrf)) \<and>
   (\<forall>p q m. m \<in> set AUTH_MARKERS \<and> includes_str q m
      \<longrightarrow> \<not> shouldUseAjax origin host (Some (p @ ''?'' @ q)))"
proof (intro conjI allI impI)
  assume a: "on_allow_list (replace_first_by_empty origin hrf) \<and>
    \<not> excluded_prefix host hrf \<and>
    \<not> (includes_str hrf ''?'' \<and> list_ex (includes_str hrf) AUTH_MARKERS)"
  then have "hrf \<noteq> []" using not_on_allow_list_empty by auto
  with a show "shouldUseAjax origin host (Some hrf)"
    by (auto simp: shouldUseAjax_def excluded_prefix_def AUTH_MARKERS_def on_allow_list_def)
next
  fix p q m
  assume "m \<in> set AUTH_MARKERS \<and> includes_str q m"
  then have m: "m \<in> set AUTH_MARKERS" and q: "includes_str q m" by simp_all
  from q have "includes_str (p @ ''?'' @ q) m" by (rule includes_in_query)
  with m have "includes_str (p @ ''?'' @ q) ''access_token'' \<or>
               includes_str (p @ ''?'' @ q) ''refresh_token'' \<or>
               includes_str (p @ ''?'' @ q) ''type='' \<or>
               includes_str (p @ ''?'' @ q) ''token_hash'' \<or>
               includes_str (p @ ''?'' @ q) ''code=''"
    by (auto simp: AUTH_MARKERS_def)
  then show "\<not> shouldUseAjax origin host (Some (p @ ''?'' @ q))"
    using includes_question_mark [of p q]
    by (simp add: shouldUseAjax_def)
qed

text \<open>
  The claim as the specification words it fails on two hrefs. In the first the marker
  \<open>access_token\<close> stands in the path, before the question mark, and the query string has
  no marker. In the second the origin stands inside the href, not at its start; stripping
  the origin as a prefix leaves the href as it is, and it ends with \<open>profile.html\<close>, while
  removing the first occurrence of the origin leaves \<open>xrofile.html\<close>.
\<close>

theorem shouldUseAjax_counterexample:
  "spec_eligible app_origin app_host ''/access_token_help?next=/index.html'' \<and>
   \<not> shouldUseAjax app_origin app_host (Some ''/access_token_help?next=/index.html'') \<and>
   spec_eligible app_origin app_host ''xhttps://viltrum.approfile.html'' \<and>
   \<not> shouldUseAjax app_origin app_host (Some ''xhttps://viltrum.approfile.html'')"
  by code_simp

text \<open>A page of the application is eligible; the same kind of link with a code is not.\<close>

theorem shouldUseAjax_samples:
  "shouldUseAjax app_origin app_host (Some ''https://viltrum.app/pages/dashboard.html'') \<and>
   \<not> shouldUseAjax app_origin app_host (Some ''/pages/profile.html?code=abc'')"
proof -
  have allowed: "on_allow_list (replace_first_by_empty app_origin ''https://viltrum.app/pages/dashboard.html'')"
    by code_simp
  have inner: "\<not> excluded_prefix app_host ''https://viltrum.app/pages/dashboard.html''"
    by code_simp
  have plain: "\<not> (includes_str ''https://viltrum.app/pages/dashboard.html'' ''?'' \<and>
                  list_ex (includes_str ''https://viltrum.app/pages/dashboard.html'') AUTH_MARKERS)"
    by code_simp
  have marker: "''code='' \<in> set AUTH_MARKERS" by (simp add: AUTH_MARKERS_def)
  have inq: "includes_str ''code=abc'' ''code=''" by code_simp
  note facts = shouldUseAjax_eligible [of app_origin _ app_host]
  from facts [of "''https://viltrum.app/pages/dashboard.html''"] allowed inner plain
  have yes: "shouldUseAjax app_origin app_host (Some ''https://viltrum.app/pages/dashboard.html'')"
    by blast
  from facts [of "[]"] marker inq
  have "\<not> shouldUseAjax app_origin app_host (Some (''/pages/profile.html'' @ ''?'' @ ''code=abc''))"
    by blast
  then have no: "\<not> shouldUseAjax app_origin app_host (Some ''/pages/profile.html?code=abc'')"
    by simp
  from yes no show ?thesis by blast
qed

section \<open>The navigation lock\<close>

lemma without_single: "without 0 [x] = []"
  by (simp add: without_def)

text \<open>The lock is held exactly while an activation is suspended, and there is never a second.\<close>

lemma lock_invariant:
  "reachable st \<Longrightarrow>
   length (suspended st) \<le> 1 \<and> (isNavigating st \<longleftrightarrow> suspended st \<noteq> [])"
proof (induction rule: reachable.induct)
  case (start u t)
  show ?case by simp
next
  case (after st h e)
  then have le: "length (suspended st) \<le> 1"
    and lock: "isNavigating st \<longleftrightarrow> suspended st \<noteq> []" by simp_all
  show ?case
  proof (cases e)
    case (Call hrf push)
    with le lock show ?thesis by (auto simp: navigateAjax_def)
  next
    case (FetchSettled i outcome)
    show ?thesis
    proof (cases "i < length (suspended st)")
      case True
      with le obtain a where one: "suspended st = [a]" and i: "i = 0"
        by (cases "suspended st") auto
      with lock show ?thesis
        by (simp add: FetchSettled fetch_settled_def fall_back_def without_single
            split: option.splits)
    next
      case False
      with le lock show ?thesis by (simp add: FetchSettled fetch_settled_def)
    qed
  next
    case (TextSettled i outcome)
    show ?thesis
    proof (cases "i < length (suspended st)")
      case True
      with le obtain a where one: "suspended st = [a]" and i: "i = 0"
        by (cases "suspended st") auto
      with lock show ?thesis
        by (simp add: TextSettled text_settled_def fall_back_def without_single Let_def
            split: option.splits)
    next
      case False
      with le lock show ?thesis by (simp add: TextSettled text_settled_def)
    qed
  next
    case (PopState ajaxNav url)
    with le lock show ?thesis by (auto simp: handlePopState_def navigateAjax_def Let_def)
  qed
qed

text \<open>How the one activation in flight ends, or goes on, when its request settles.\<close>

lemma fetch_settled_single:
  assumes "suspended st = [a]" and "phase a = AwaitingFetch"
  shows "fetch_settled 0 None st =
           st\<lparr>isNavigating := False, suspended := [],
              trace := trace st @ [SetLocationHref (href a)]\<rparr>"
    and "\<not> response_ok status \<Longrightarrow>
         fetch_settled 0 (Some status) st =
           st\<lparr>isNavigating := False, suspended := [],
              trace := trace st @ [SetLocationHref (href a)]\<rparr>"
    and "response_ok status \<Longrightarrow>
         fetch_settled 0 (Some status) st = st\<lparr>suspended := [a\<lparr>phase := AwaitingText\<rparr>]\<rparr>"
  using assms by (simp_all add: fetch_settled_def fall_back_def without_single)

lemma text_settled_single:
  assumes "suspended st = [a]" and "phase a = AwaitingText"
  shows "text_settled h 0 None st =
           st\<lparr>isNavigating := False, suspended := [],
              trace := trace st @ [SetLocationHref (href a)]\<rparr>"
    and "\<not> isNavigating (text_settled h 0 (Some html) st)"
    and "suspended (text_settled h 0 (Some html) st) = []"
  using assms by (simp_all add: text_settled_def fall_back_def without_single Let_def)

lemma navigateAjax_idle:
  assumes "\<not> isNavigating st"
  shows "navigateAjax h hrf push st =
           st\<lparr>isNavigating := True,
              suspended := suspended st @
                [\<lparr>href = hrf, pushState = push,
                  absoluteUrl = resolveUrl h (documentURL st) hrf,
                  phase = AwaitingFetch\<rparr>],
              trace := trace st @ [Fetch (resolveUrl h (documentURL st) hrf)]\<rparr>"
  using assms by (simp add: navigateAjax_def)

text \<open>
  C2. In every state the page can reach:
  \<^item> at most one activation of \<open>navigateAjax\<close> is in flight;
  \<^item> while one is in flight the lock is held, and a call of \<open>navigateAjax\<close> changes nothing
    (no request, no change of the document, no history entry);
  \<^item> when the request of the activation in flight is rejected or answered with a status
    outside 200 to 299, the activation ends, the location is set to its href and the lock is
    free; when the request is answered with a status in that range, the activation goes on
    to read the body, the lock still held;
  \<^item> when the body cannot be read, the activation ends, the location is set to its href and
    the lock is free; when the body arrives, the content is swapped, the activation ends and
    the lock is free;
  \<^item> whenever an event leaves no activation in flight, the lock is free and the next call of
    \<open>navigateAjax\<close> takes the lock and sends its request.
\<close>

theorem navigation_lock:
  assumes "reachable st"
  shows "length (suspended st) \<le> 1 \<and>
         (suspended st \<noteq> [] \<longrightarrow> isNavigating st \<and> navigateAjax h hrf push st = st) \<and>
         (\<forall>a. suspended st = [a] \<and> phase a = AwaitingFetch \<longrightarrow>
            fetch_settled 0 None st =
              st\<lparr>isNavigating := False, suspended := [],
                 trace := trace st @ [SetLocationHref (href a)]\<rparr> \<and>
            (\<forall>status. \<not> response_ok status \<longrightarrow>
               fetch_settled 0 (Some status) st =
                 st\<lparr>isNavigating := False, suspended := [],
                    trace := trace st @ [SetLocationHref (href a)]\<rparr>) \<and>
            (\<forall>status. response_ok status \<longrightarrow>
               fetch_settled 0 (Some status) st =
                 st\<lparr>suspended := [a\<lparr>phase := AwaitingText\<rparr>]\<rparr>)) \<and>
         (\<forall>a. suspended st = [a] \<and> phase a = AwaitingText \<longrightarrow>
            text_settled h 0 None st =
              st\<lparr>isNavigating := False, suspended := [],
                 trace := trace st @ [SetLocationHref (href a)]\<rparr> \<and>
            (\<forall>html. \<not> isNavigating (text_settled h 0 (Some html) st) \<and>
                    suspended (text_settled h 0 (Some html) st) = [])) \<and>
         (\<forall>h' e. suspended (step h' e st) = [] \<longrightarrow>
            \<not> isNavigating (step h' e st) \<and>
            navigateAjax h hrf push (step h' e st) =
              (step h' e st)
                \<lparr>isNavigating := True,
                 suspended :=
                   [\<lparr>href = hrf, pushState = push,
                     absoluteUrl = resolveUrl h (documentURL (step h' e st)) hrf,
                     phase = AwaitingFetch\<rparr>],
                 trace := trace (step h' e st) @
                   [Fetch (resolveUrl h (documentURL (step h' e st)) hrf)]\<rparr>)"
proof -
  from lock_invariant [OF assms]
  have le: "length (suspended st) \<le> 1"
    and lock: "isNavigating st \<longleftrightarrow> suspended st \<noteq> []" by simp_all
  have dropped: "suspended st \<noteq> [] \<longrightarrow> isNavigating st \<and> navigateAjax h hrf push st = st"
    using lock by (simp add: navigateAjax_def)
  have fetching: "\<forall>a. suspended st = [a] \<and> phase a = AwaitingFetch \<longrightarrow>
            fetch_settled 0 None st =
              st\<lparr>isNavigating := False, suspended := [],
                 trace := trace st @ [SetLocationHref (href a)]\<rparr> \<and>
            (\<forall>status. \<not> response_ok status \<longrightarrow>
               fetch_settled 0 (Some status) st =
                 st\<lparr>isNavigating := False, suspended := [],
                    trace := trace st @ [SetLocationHref (href a)]\<rparr>) \<and>
            (\<forall>status. response_ok status \<longrightarrow>
               fetch_settled 0 (Some status) st =
                 st\<lparr>suspended := [a\<lparr>phase := AwaitingText\<rparr>]\<rparr>)"
    by (intro allI impI conjI; elim conjE) (rule fetch_settled_single; assumption)+
  have reading: "\<forall>a. suspended st = [a] \<and> phase a = AwaitingText \<longrightarrow>
            text_settled h 0 None st =
              st\<lparr>isNavigating := False, suspended := [],
                 trace := trace st @ [SetLocationHref (href a)]\<rparr> \<and>
            (\<forall>html. \<not> isNavigating (text_settled h 0 (Some html) st) \<and>
                    suspended (text_settled h 0 (Some html) st) = [])"
    by (intro allI impI conjI; elim conjE) (rule text_settled_single; assumption)+
  have released: "\<forall>h' e. suspended (step h' e st) = [] \<longrightarrow>
            \<not> isNavigating (step h' e st) \<and>
            navigateAjax h hrf push (step h' e st) =
              (step h' e st)
                \<lparr>isNavigating := True,
                 suspended :=
                   [\<lparr>href = hrf, pushState = push,
                     absoluteUrl = resolveUrl h (documentURL (step h' e st)) hrf,
                     phase = AwaitingFetch\<rparr>],
                 trace := trace (step h' e st) @
                   [Fetch (resolveUrl h (documentURL (step h' e st)) hrf)]\<rparr>"
  proof (intro allI impI)
    fix h' e
    assume none: "suspended (step h' e st) = []"
    have "reachable (step h' e st)" using assms by (rule reachable.after)
    from lock_invariant [OF this] none have free: "\<not> isNavigating (step h' e st)" by simp
    from navigateAjax_idle [OF free, of h hrf push] none free
    show "\<not> isNavigating (step h' e st) \<and>
            navigateAjax h hrf push (step h' e st) =
              (step h' e st)
                \<lparr>isNavigating := True,
                 suspended :=
                   [\<lparr>href = hrf, pushState = push,
                     absoluteUrl = resolveUrl h (documentURL (step h' e st)) hrf,
                     phase = AwaitingFetch\<rparr>],
                 trace := trace (step h' e st) @
                   [Fetch (resolveUrl h (documentURL (step h' e st)) hrf)]\<rparr>"
      by simp
  qed
  from le dropped fetching reading released show ?thesis by blast
qed

lemma loading_page_eq:
  "loading_page =
     \<lparr>isNavigating = True,
      suspended = [\<lparr>href = ''pages/workout.html'', pushState = True,
                    absoluteUrl = ''https://viltrum.app/pages/workout.html'',
                    phase = AwaitingFetch\<rparr>],
      documentURL = ''https://viltrum.app/index.html'',
      trace = [Fetch ''https://viltrum.app/pages/workout.html'']\<rparr>"
  by (simp add: loading_page_def fresh_page_def navigateAjax_def sample_host_def
      resolve_sample_def directory_of_def startsWith_def)

lemma receiving_page_eq:
  "receiving_page =
     \<lparr>isNavigating = True,
      suspended = [\<lparr>href = ''pages/workout.html'', pushState = True,
                    absoluteUrl = ''https://viltrum.app/pages/workout.html'',
                    phase = AwaitingText\<rparr>],
      documentURL = ''https://viltrum.app/index.html'',
      trace = [Fetch ''https://viltrum.app/pages/workout.html'']\<rparr>"
  by (simp add: receiving_page_def loading_page_eq fetch_settled_def response_ok_def)

lemma loaded_page_eq:
  "loaded_page =
     \<lparr>isNavigating = False, suspended = [],
      documentURL = ''https://viltrum.app/pages/workout.html'',
      trace = [Fetch ''https://viltrum.app/pages/workout.html'',
               SetTitle ''Workout'', SetBodyInnerHTML ''<main></main>'',
               SetBodyClassName ''page'',
               PushState True ''Workout'' ''https://viltrum.app/pages/workout.html'',
               AppendScript ''init()'',
               DispatchEvent ''ajax-navigation-complete'', DispatchEvent ''DOMContentLoaded'',
               DispatchEvent ''load'', UpdateDvhProperty, ScrollTo 0 0]\<rparr>"
  by (simp add: loaded_page_def receiving_page_eq text_settled_def without_def
      sample_host_def executeScripts_def reinitializeApp_def Let_def)

text \<open>
  A navigation from \<open>index.html\<close> to \<open>pages/workout.html\<close> is in flight. A second call is
  dropped. A network error, a status 404 and an unreadable body each end it with the
  location set to the href and the lock free. When the body arrives the lock is free, the
  document is at \<open>pages/workout.html\<close>, and the next call, for \<open>index.html\<close>, sends its
  request to the URL resolved there.
\<close>

theorem navigation_lock_samples:
  "navigateAjax sample_host ''index.html'' True loading_page = loading_page \<and>
   fetch_settled 0 None loading_page =
     fresh_page\<lparr>trace := [Fetch ''https://viltrum.app/pages/workout.html'',
                          SetLocationHref ''pages/workout.html'']\<rparr> \<and>
   fetch_settled 0 (Some 404) loading_page =
     fresh_page\<lparr>trace := [Fetch ''https://viltrum.app/pages/workout.html'',
                          SetLocationHref ''pages/workout.html'']\<rparr> \<and>
   fetch_settled 0 (Some 200) loading_page = receiving_page \<and>
   text_settled sample_host 0 None receiving_page =
     fresh_page\<lparr>trace := [Fetch ''https://viltrum.app/pages/workout.html'',
                          SetLocationHref ''pages/workout.html'']\<rparr> \<and>
   \<not> isNavigating loaded_page \<and> suspended loaded_page = [] \<and>
   navigateAjax sample_host ''index.html'' True loaded_page =
     loaded_page
       \<lparr>isNavigating := True,
        suspended := [\<lparr>href = ''index.html'', pushState = True,
                       absoluteUrl = ''https://viltrum.app/pages/index.html'',
                       phase = AwaitingFetch\<rparr>],
        trace := trace loaded_page @ [Fetch ''https://viltrum.app/pages/index.html'']\<rparr>"
proof -
  have r0: "reachable fresh_page"
    unfolding fresh_page_def by (rule reachable.start)
  then have r1: "reachable loading_page"
    unfolding loading_page_def by (rule reachable.after)
  then have r2: "reachable receiving_page"
    unfolding receiving_page_def by (rule reachable.after)
  let ?a = "\<lparr>href = ''pages/workout.html'', pushState = True,
             absoluteUrl = ''https://viltrum.app/pages/workout.html'',
             phase = AwaitingFetch\<rparr>"
  have busy: "suspended loading_page \<noteq> []" by (simp add: loading_page_eq)
  have one: "suspended loading_page = [?a] \<and> phase ?a = AwaitingFetch"
    by (simp add: loading_page_eq)
  have two: "suspended receiving_page = [?a\<lparr>phase := AwaitingText\<rparr>] \<and>
             phase (?a\<lparr>phase := AwaitingText\<rparr>) = AwaitingText"
    by (simp add: receiving_page_eq)
  have bad: "\<not> response_ok 404" and good: "response_ok 200"
    by (simp_all add: response_ok_def)
  note waiting = navigation_lock [OF r1, of sample_host "''index.html''" True]
  note reading = navigation_lock [OF r2, of sample_host "''index.html''" True]
  from waiting busy
  have dropped: "navigateAjax sample_host ''index.html'' True loading_page = loading_page"
    by blast
  from waiting one
  have "fetch_settled 0 None loading_page =
          loading_page\<lparr>isNavigating := False, suspended := [],
             trace := trace loading_page @ [SetLocationHref (href ?a)]\<rparr>"
    by blast
  then have error: "fetch_settled 0 None loading_page =
     fresh_page\<lparr>trace := [Fetch ''https://viltrum.app/pages/workout.html'',
                          SetLocationHref ''pages/workout.html'']\<rparr>"
    by (simp add: loading_page_eq fresh_page_def)
  from waiting one bad
  have "fetch_settled 0 (Some 404) loading_page =
          loading_page\<lparr>isNavigating := False, suspended := [],
             trace := trace loading_page @ [SetLocationHref (href ?a)]\<rparr>"
    by blast
  then have missing: "fetch_settled 0 (Some 404) loading_page =
     fresh_page\<lparr>trace := [Fetch ''https://viltrum.app/pages/workout.html'',
                          SetLocationHref ''pages/workout.html'']\<rparr>"
    by (simp add: loading_page_eq fresh_page_def)
  from waiting one good
  have "fetch_settled 0 (Some 200) loading_page =
          loading_page\<lparr>suspended := [?a\<lparr>phase := AwaitingText\<rparr>]\<rparr>"
    by blast
  then have found: "fetch_settled 0 (Some 200) loading_page = receiving_page"
    by (simp add: loading_page_eq receiving_page_eq)
  from reading two
  have "text_settled sample_host 0 None receiving_page =
          receiving_page\<lparr>isNavigating := False, suspended := [],
             trace := trace receiving_page
                        @ [SetLocationHref (href (?a\<lparr>phase := AwaitingText\<rparr>))]\<rparr>"
    by blast
  then have unread: "text_settled sample_host 0 None receiving_page =
     fresh_page\<lparr>trace := [Fetch ''https://viltrum.app/pages/workout.html'',
                          SetLocationHref ''pages/workout.html'']\<rparr>"
    by (simp add: receiving_page_eq fresh_page_def)
  from reading two
  have "\<not> isNavigating (text_settled sample_host 0 (Some ''<main></main>'') receiving_page) \<and>
        suspended (text_settled sample_host 0 (Some ''<main></main>'') receiving_page) = []"
    by blast
  then have free: "\<not> isNavigating loaded_page \<and> suspended loaded_page = []"
    by (simp add: loaded_page_def)
  then have ended:
    "suspended (step sample_host (TextSettled 0 (Some ''<main></main>'')) receiving_page) = []"
    by (simp add: loaded_page_def)
  from reading ended
  have "navigateAjax sample_host ''index.html'' True loaded_page =
          loaded_page
            \<lparr>isNavigating := True,
             suspended :=
               [\<lparr>href = ''index.html'', pushState = True,
                 absoluteUrl = resolveUrl sample_host (documentURL loaded_page) ''index.html'',
                 phase = AwaitingFetch\<rparr>],
             trace := trace loaded_page @
               [Fetch (resolveUrl sample_host (documentURL loaded_page) ''index.html'')]\<rparr>"
    unfolding loaded_page_def by blast
  moreover have "resolveUrl sample_host (documentURL loaded_page) ''index.html''
                   = ''https://viltrum.app/pages/index.html''"
    by (simp add: loaded_page_eq sample_host_def resolve_sample_def directory_of_def
        startsWith_def)
  ultimately have again: "navigateAjax sample_host ''index.html'' True loaded_page =
     loaded_page
       \<lparr>isNavigating := True,
        suspended := [\<lparr>href = ''index.html'', pushState = True,
                       absoluteUrl = ''https://viltrum.app/pages/index.html'',
                       phase = AwaitingFetch\<rparr>],
        trace := trace loaded_page @ [Fetch ''https://viltrum.app/pages/index.html'']\<rparr>"
    by simp
  from dropped error missing found unread free again show ?thesis by blast
qed

text \<open>
  C4. A call of \<open>navigateAjax\<close> on an idle page whose request fails, by a network error
  or with a status outside 200 to 299, has one effect after the request: the location is
  set to the href of the call. The document and the history are untouched, and the lock is
  free again.
\<close>

theorem navigateAjax_fetch_failure_falls_back:
  assumes "\<not> isNavigating st" and "suspended st = []"
    and "outcome = None \<or> (\<exists>status. outcome = Some status \<and> \<not> response_ok status)"
  shows "fetch_settled 0 outcome (navigateAjax h hrf push st) =
           st\<lparr>trace := trace st @
                 [Fetch (resolveUrl h (documentURL st) hrf), SetLocationHref hrf]\<rparr>"
  using assms
  by (auto simp: navigateAjax_def fetch_settled_def fall_back_def without_def)

text \<open>A network error and a status 404.\<close>

theorem navigateAjax_fetch_failure_samples:
  "fetch_settled 0 None (navigateAjax sample_host ''pages/workout.html'' True fresh_page)
     = \<lparr>isNavigating = False, suspended = [],
        documentURL = ''https://viltrum.app/index.html'',
        trace = [Fetch ''https://viltrum.app/pages/workout.html'',
                 SetLocationHref ''pages/workout.html'']\<rparr> \<and>
   fetch_settled 0 (Some 404) (navigateAjax sample_host ''pages/workout.html'' True fresh_page)
     = \<lparr>isNavigating = False, suspended = [],
        documentURL = ''https://viltrum.app/index.html'',
        trace = [Fetch ''https://viltrum.app/pages/workout.html'',
                 SetLocationHref ''pages/workout.html'']\<rparr>"
proof -
  have idle: "\<not> isNavigating fresh_page" "suspended fresh_page = []"
    by (simp_all add: fresh_page_def)
  have bad: "\<not> response_ok 404" by (simp add: response_ok_def)
  have a: "(None :: nat option) = None \<or> (\<exists>status. None = Some status \<and> \<not> response_ok status)"
    by simp
  have b: "Some 404 = None \<or> (\<exists>status. Some (404::nat) = Some status \<and> \<not> response_ok status)"
    using bad by simp
  have url: "resolveUrl sample_host (documentURL fresh_page) ''pages/workout.html''
               = ''https://viltrum.app/pages/workout.html''"
    by (simp add: fresh_page_def sample_host_def resolve_sample_def directory_of_def
        startsWith_def)
  show ?thesis
    using navigateAjax_fetch_failure_falls_back
            [OF idle a, of sample_host "''pages/workout.html''" True]
      navigateAjax_fetch_failure_falls_back
            [OF idle b, of sample_host "''pages/workout.html''" True]
    by (simp add: url) (simp add: fresh_page_def)
qed

section \<open>The click listener of the overlay\<close>

text \<open>
  C9, as the code has it. For a click on an anchor, the listener shows the overlay exactly
  when the anchor has a non-empty href that does not start with \<open>http\<close>, \<open>#\<close> or
  \<open>javascript:\<close>, its target is not \<open>_blank\<close> and it has no download attribute;
  otherwise it leaves the overlay as it is. It never prevents the default action.
\<close>

theorem click_listener_masks:
  "click_listener (Some a) ov =
     (if spec_masks a \<and> href_attribute a \<noteq> Some [] then showNavOverlay ov else ov, False)"
  by (auto simp: click_listener_def spec_masks_def split: option.splits)

text \<open>
  The claim as the specification words it fails on an anchor whose href attribute is the
  empty string: the attribute is there and starts with none of the prefixes, yet the
  listener leaves the overlay inactive.
\<close>

theorem click_listener_counterexample:
  "spec_masks bare_anchor \<and>
   click_listener (Some bare_anchor) idle_overlay = (idle_overlay, False) \<and>
   showNavOverlay idle_overlay \<noteq> idle_overlay"
  by (simp add: spec_masks_def bare_anchor_def idle_overlay_def click_listener_def
      showNavOverlay_def startsWith_def)

text \<open>A link to a page of the application, and the same link opening in a new tab.\<close>

theorem click_listener_samples:
  "click_listener (Some page_link) idle_overlay = (\<lparr>in_document = True, active = True\<rparr>, False) \<and>
   click_listener (Some (page_link\<lparr>target := ''_blank''\<rparr>)) idle_overlay = (idle_overlay, False)"
proof -
  have yes: "spec_masks page_link \<and> href_attribute page_link \<noteq> Some []"
    by (simp add: spec_masks_def page_link_def startsWith_def)
  have no: "\<not> spec_masks (page_link\<lparr>target := ''_blank''\<rparr>)"
    by (simp add: spec_masks_def page_link_def)
  show ?thesis
    using click_listener_masks [of page_link idle_overlay]
      click_listener_masks [of "page_link\<lparr>target := ''_blank''\<rparr>" idle_overlay] yes no
    by (simp add: showNavOverlay_def idle_overlay_def)
qed

section \<open>Exercise weights\<close>

lemma map_of_set_property: "map_of (set_property k v ps) = (map_of ps)(k \<mapsto> v)"
  by (induction ps) (auto simp: fun_eq_iff)

text \<open>Assigning a list of properties in order: the last binding of a key is the one kept.\<close>

lemma map_of_copy_properties: "map_of (copy_properties tgt src) = map_of tgt ++ map_of (rev src)"
  unfolding copy_properties_def
proof (induction src arbitrary: tgt)
  case Nil
  show ?case by simp
next
  case (Cons p src)
  obtain k v where p: "p = (k, v)" by (cases p)
  show ?case
    by (simp add: p Cons.IH map_of_set_property map_add_def fun_eq_iff split: option.splits)
qed

lemma map_of_rev_distinct: "distinct (map fst xs) \<Longrightarrow> map_of (rev xs) = map_of xs"
proof (induction xs)
  case Nil
  show ?case by simp
next
  case (Cons p xs)
  then have absent: "map_of xs (fst p) = None" and IH: "map_of (rev xs) = map_of xs"
    by (auto simp: map_of_eq_None_iff)
  show ?case
    by (cases p) (use absent IH in \<open>auto simp: map_add_def fun_eq_iff split: option.splits\<close>)
qed

lemma map_of_copy_properties_distinct:
  "distinct (map fst src) \<Longrightarrow>
   map_of (copy_properties tgt src) k = (case map_of src k of Some v \<Rightarrow> Some v | None \<Rightarrow> map_of tgt k)"
  by (simp add: map_of_copy_properties map_add_def map_of_rev_distinct split: option.splits)

text \<open>
  C10. What \<open>getExerciseWeight\<close> gives for an exercise name. When a weight is stored
  for the name, the result is \<open>null\<close> if the weight is falsy, the empty string for one,
  and the weight itself otherwise. When no weight is stored for the name, the result is
  \<open>null\<close>, so the same as for a stored empty string, unless the name is that of a member
  of \<open>Object.prototype\<close>: then the result is that member.
\<close>

theorem getExerciseWeight_by_cases:
  "(map_of (getExerciseWeights st) n = None \<and> n \<notin> set Object_prototype \<longrightarrow>
      getExerciseWeight st n = None) \<and>
   (map_of (getExerciseWeights st) n = None \<and> n \<in> set Object_prototype \<longrightarrow>
      getExerciseWeight st n = Some (Builtin n)) \<and>
   (\<forall>v. map_of (getExerciseWeights st) n = Some v \<and> \<not> truthy v \<longrightarrow>
        getExerciseWeight st n = None) \<and>
   (\<forall>v. map_of (getExerciseWeights st) n = Some v \<and> truthy v \<longrightarrow>
        getExerciseWeight st n = Some (Stored v))"
  by (auto simp: getExerciseWeight_def split: option.splits)

text \<open>
  With \<open>Squat\<close> stored as the empty string and no \<open>Deadlift\<close> stored, both reads give
  \<open>null\<close>. No \<open>constructor\<close> is stored either, and that read gives
  \<open>Object.prototype.constructor\<close>.
\<close>

theorem getExerciseWeight_squat_deadlift_constructor:
  "map_of (getExerciseWeights blank_squat_store) ''Squat'' = Some (JStr []) \<and>
   getExerciseWeight blank_squat_store ''Squat'' = None \<and>
   map_of (getExerciseWeights blank_squat_store) ''Deadlift'' = None \<and>
   getExerciseWeight blank_squat_store ''Deadlift'' = None \<and>
   getExerciseWeight blank_squat_store ''Bench'' = Some (Stored (JStr ''80kg'')) \<and>
   map_of (getExerciseWeights blank_squat_store) ''constructor'' = None \<and>
   getExerciseWeight blank_squat_store ''constructor'' = Some (Builtin ''constructor'')"
proof -
  note stored = getExerciseWeights_def getExerciseWeightsLocal_def blank_squat_store_def
    bench_store_def
  have squat: "map_of (getExerciseWeights blank_squat_store) ''Squat'' = Some (JStr [])"
    by (simp add: stored)
  have deadlift: "map_of (getExerciseWeights blank_squat_store) ''Deadlift'' = None"
    by (simp add: stored)
  have bench: "map_of (getExerciseWeights blank_squat_store) ''Bench'' = Some (JStr ''80kg'')"
    by (simp add: stored)
  have constructor: "map_of (getExerciseWeights blank_squat_store) ''constructor'' = None"
    by (simp add: stored)
  have own: "''Deadlift'' \<notin> set Object_prototype" by (simp add: Object_prototype_def)
  have inherited: "''constructor'' \<in> set Object_prototype" by (simp add: Object_prototype_def)
  have falsy: "\<not> truthy (JStr [])" and heavy: "truthy (JStr ''80kg'')" by simp_all
  note facts = getExerciseWeight_by_cases
  from facts [of blank_squat_store "''Deadlift''"] deadlift own
  have a: "getExerciseWeight blank_squat_store ''Deadlift'' = None" by blast
  from facts [of blank_squat_store "''Squat''"] squat falsy
  have b: "getExerciseWeight blank_squat_store ''Squat'' = None" by blast
  from facts [of blank_squat_store "''Bench''"] bench heavy
  have c: "getExerciseWeight blank_squat_store ''Bench'' = Some (Stored (JStr ''80kg''))"
    by blast
  from facts [of blank_squat_store "''constructor''"] constructor inherited
  have d: "getExerciseWeight blank_squat_store ''constructor''
             = Some (Builtin ''constructor'')"
    by blast
  from squat deadlift constructor a b c d show ?thesis by blast
qed

text \<open>
  C7. A user is logged in, the reply is a JSON object whose \<open>status\<close> is \<open>success\<close> and
  whose \<open>weights\<close> is an object \<open>cloud\<close>. Then \<open>loadWeightsFromCloud\<close> returns a map, stores
  it under the weights key, and the map gives for every key the cloud's value when the cloud
  has the key and the local value otherwise.
\<close>

theorem loadWeightsFromCloud_merges:
  assumes "getCurrentUserEmail st = Some e" and "e \<noteq> []"
    and "fetch b \<lparr>action = ''getWeights'', email = e, weights = None\<rparr>
           = Response status (Some payload)"
    and "JSON_parse b payload = Some (JObj members)"
    and "map_of members ''status'' = Some (JStr ''success'')"
    and "map_of members ''weights'' = Some (JObj cloud)"
    and "distinct (map fst cloud)"
  shows "\<exists>merged.
           loadWeightsFromCloud b st = (Some merged, st\<lparr>WEIGHTS := JsonText merged\<rparr>) \<and>
           getExerciseWeights (snd (loadWeightsFromCloud b st)) = merged \<and>
           (\<forall>k. map_of merged k =
                  (case map_of cloud k of
                     Some v \<Rightarrow> Some v
                   | None \<Rightarrow> map_of (getExerciseWeightsLocal st) k))"
proof -
  let ?merged = "copy_properties (getExerciseWeightsLocal st) cloud"
  have run: "loadWeightsFromCloud b st = (Some ?merged, st\<lparr>WEIGHTS := JsonText ?merged\<rparr>)"
    using assms by (simp add: loadWeightsFromCloud_def Let_def)
  have stored: "getExerciseWeights (snd (loadWeightsFromCloud b st)) = ?merged"
    by (simp add: run getExerciseWeights_def getExerciseWeightsLocal_def)
  have lookup: "\<forall>k. map_of ?merged k =
                  (case map_of cloud k of
                     Some v \<Rightarrow> Some v
                   | None \<Rightarrow> map_of (getExerciseWeightsLocal st) k)"
    using assms(7) by (simp add: map_of_copy_properties_distinct)
  from run stored lookup show ?thesis by blast
qed

text \<open>
  The cloud holds \<open>{"Squat":"100kg"}\<close>, the store \<open>{"Bench":"80kg"}\<close>: the result
  is \<open>{"Bench":"80kg","Squat":"100kg"}\<close>.
\<close>

theorem loadWeightsFromCloud_squat_bench:
  "fst (loadWeightsFromCloud sample_browser bench_store)
     = Some [(''Bench'', JStr ''80kg''), (''Squat'', JStr ''100kg'')] \<and>
   (\<exists>merged.
      loadWeightsFromCloud sample_browser bench_store
        = (Some merged, bench_store\<lparr>WEIGHTS := JsonText merged\<rparr>) \<and>
      getExerciseWeights (snd (loadWeightsFromCloud sample_browser bench_store)) = merged \<and>
      (\<forall>k. map_of merged k =
             (case map_of [(''Squat'', JStr ''100kg'')] k of
                Some v \<Rightarrow> Some v
              | None \<Rightarrow> map_of (getExerciseWeightsLocal bench_store) k)))"
proof -
  have "fst (loadWeightsFromCloud sample_browser bench_store)
     = Some [(''Bench'', JStr ''80kg''), (''Squat'', JStr ''100kg'')]"
    by (simp add: loadWeightsFromCloud_def sample_browser_def sample_parse_def bench_store_def
        getCurrentUserEmail_def getExerciseWeightsLocal_def copy_properties_def Let_def)
  moreover have "\<exists>merged.
      loadWeightsFromCloud sample_browser bench_store
        = (Some merged, bench_store\<lparr>WEIGHTS := JsonText merged\<rparr>) \<and>
      getExerciseWeights (snd (loadWeightsFromCloud sample_browser bench_store)) = merged \<and>
      (\<forall>k. map_of merged k =
             (case map_of [(''Squat'', JStr ''100kg'')] k of
                Some v \<Rightarrow> Some v
              | None \<Rightarrow> map_of (getExerciseWeightsLocal bench_store) k))"
    by (rule loadWeightsFromCloud_merges [where e = "''user@example.com''" and status = 200
          and payload = cloud_reply_text
          and members = "[(''status'', JStr ''success''),
                          (''weights'', JObj [(''Squat'', JStr ''100kg'')])]"])
       (simp_all add: sample_browser_def sample_parse_def bench_store_def
          getCurrentUserEmail_def)
  ultimately show ?thesis by blast
qed

section \<open>Saving the weights to the cloud\<close>

text \<open>
  C1. What \<open>syncWeightsToCloud\<close> does with a response of status 2xx whose body is not
  JSON: the test of the inner \<open>catch\<close> clause, \<open>text.includes('success') || response.ok\<close>,
  holds because the status has been checked before, so the function returns \<open>true\<close> and
  records the time of synchronisation whatever the body says. The \<open>return false\<close> that
  follows the test is never reached.
\<close>

theorem syncWeightsToCloud_unparsed_body_is_success:
  assumes "getCurrentUserEmail st = Some e" and "e \<noteq> []"
    and "fetch b \<lparr>action = ''saveWeights'', email = e, weights = Some ws\<rparr>
           = Response status (Some payload)"
    and "response_ok status"
    and "JSON_parse b payload = None"
  shows "syncWeightsToCloud b ws st = (True, mark_synced b st)"
  using assms by (simp add: syncWeightsToCloud_def Let_def)

text \<open>
  A logged-in user, status 200, and an HTML error page as the body, which is not JSON and
  does not contain \<open>success\<close>: the result is \<open>true\<close>.
\<close>

theorem syncWeightsToCloud_error_page:
  "response_ok 200 \<and>
   JSON_parse error_page_browser error_page_text = None \<and>
   \<not> includes_str error_page_text ''success'' \<and>
   syncWeightsToCloud error_page_browser [(''Bench'', JStr ''80kg'')] bench_store
     = (True, bench_store\<lparr>WEIGHTS_SYNCED := Some ''2024-01-01T00:00:00.000Z''\<rparr>)"
proof -
  have ok: "response_ok 200" by (simp add: response_ok_def)
  have unparsed: "JSON_parse error_page_browser error_page_text = None"
    by (simp add: error_page_browser_def sample_browser_def sample_parse_def
        error_page_text_def cloud_reply_text_def)
  have plain: "\<not> includes_str error_page_text ''success''"
    by (simp add: includes_str_def error_page_text_def sublist_Cons_right)
  have "syncWeightsToCloud error_page_browser [(''Bench'', JStr ''80kg'')] bench_store
          = (True, mark_synced error_page_browser bench_store)"
    by (rule syncWeightsToCloud_unparsed_body_is_success
          [where e = "''user@example.com''" and status = 200 and payload = error_page_text])
       (simp_all add: ok unparsed getCurrentUserEmail_def bench_store_def,
        simp add: error_page_browser_def)
  then show ?thesis
    using ok unparsed plain
    by (simp add: mark_synced_def error_page_browser_def sample_browser_def)
qed

section \<open>Workout history: newest first, at most 100 entries\<close>

lemma getWorkoutHistory_written: "getWorkoutHistory (st\<lparr>HISTORY := JsonText v\<rparr>) = v"
  by (simp add: getWorkoutHistory_def)

lemma getWorkoutHistory_weights:
  "getWorkoutHistory (snd (updateExerciseWeights_local ws st)) = getWorkoutHistory st"
  by (simp add: updateExerciseWeights_local_def getWorkoutHistory_def Let_def)

lemma addWorkout_on_list:
  assumes "getWorkoutHistory st = JArr h"
  shows "fst (addWorkout c st) = Some (entry_of c)"
    and "getWorkoutHistory (snd (addWorkout c st)) = JArr (take 100 (entry_of c # h))"
  using assms
  by (simp_all add: addWorkout_def addWorkoutToHistory_def entry_of_def Let_def
      getWorkoutHistory_written getWorkoutHistory_weights)

lemma addWorkout_not_list:
  assumes "\<forall>h. getWorkoutHistory st \<noteq> JArr h"
  shows "addWorkout c st = (None, st)"
  using assms
  by (cases "getWorkoutHistory st") (simp_all add: addWorkout_def addWorkoutToHistory_def)

lemma addWorkouts_on_list:
  "getWorkoutHistory st = JArr h \<Longrightarrow>
   fst (addWorkouts cs st) = map (\<lambda>c. Some (entry_of c)) cs \<and>
   getWorkoutHistory (snd (addWorkouts cs st))
     = JArr (if cs = [] then h else take 100 (rev (map entry_of cs) @ h))"
proof (induction cs arbitrary: st h)
  case Nil
  then show ?case by simp
next
  case (Cons c cs)
  obtain r st1 where step1: "addWorkout c st = (r, st1)" by (cases "addWorkout c st")
  from addWorkout_on_list [OF Cons.prems, of c] step1
  have r: "r = Some (entry_of c)"
    and h1: "getWorkoutHistory st1 = JArr (take 100 (entry_of c # h))" by simp_all
  obtain rs st2 where rest: "addWorkouts cs st1 = (rs, st2)" by (cases "addWorkouts cs st1")
  from Cons.IH [OF h1] rest
  have rs: "rs = map (\<lambda>c. Some (entry_of c)) cs"
    and h2: "getWorkoutHistory st2
               = JArr (if cs = [] then take 100 (entry_of c # h)
                       else take 100 (rev (map entry_of cs) @ take 100 (entry_of c # h)))"
    by simp_all
  have "take 100 (rev (map entry_of cs) @ take 100 (entry_of c # h))
          = take 100 (rev (map entry_of cs) @ entry_of c # h)"
    by (simp add: take_Cons' min_def)
  with h2 have "getWorkoutHistory st2 = JArr (take 100 (rev (map entry_of (c # cs)) @ h))"
    by simp
  with r rs step1 rest show ?case by simp
qed

text \<open>A call succeeds only on a stored list, so a first success means there was one.\<close>

lemma first_success_list:
  assumes "cs \<noteq> []" and "list_all (\<lambda>r. r \<noteq> None) (fst (addWorkouts cs st))"
  shows "\<exists>h. getWorkoutHistory st = JArr h"
proof (rule ccontr)
  assume "\<not> (\<exists>h. getWorkoutHistory st = JArr h)"
  then have no: "\<forall>h. getWorkoutHistory st \<noteq> JArr h" by simp
  from assms(1) obtain c cs' where cs: "cs = c # cs'" by (cases cs) auto
  have "addWorkout c st = (None, st)" by (rule addWorkout_not_list [OF no])
  then have "hd (fst (addWorkouts cs st)) = None \<and> fst (addWorkouts cs st) \<noteq> []"
    by (simp add: cs split: prod.splits)
  with assms(2) show False by (cases "fst (addWorkouts cs st)") auto
qed

text \<open>
  C5. After a non-empty sequence of calls of \<open>addWorkoutToHistory\<close> that all returned an
  entry, the stored history is a list of at most 100 entries; it begins with the entries of
  the calls, the latest call first, so the entry of the last call is at index 0; and after
  101 calls on an empty history it has exactly 100 entries.
\<close>

theorem addWorkoutToHistory_newest_first_capped:
  assumes "cs \<noteq> []" and "list_all (\<lambda>r. r \<noteq> None) (fst (addWorkouts cs st))"
  shows "\<exists>hs. getWorkoutHistory (snd (addWorkouts cs st)) = JArr hs \<and>
              length hs \<le> 100 \<and>
              take (min (length cs) 100) hs = take 100 (rev (map entry_of cs)) \<and>
              hs ! 0 = entry_of (last cs) \<and>
              (length cs = 101 \<and> getWorkoutHistory st = JArr [] \<longrightarrow> length hs = 100)"
proof -
  from first_success_list [OF assms] obtain h where h: "getWorkoutHistory st = JArr h" ..
  let ?es = "rev (map entry_of cs)"
  let ?hs = "take 100 (?es @ h)"
  from addWorkouts_on_list [OF h, of cs] assms(1)
  have stored: "getWorkoutHistory (snd (addWorkouts cs st)) = JArr ?hs" by simp
  have len: "length ?hs \<le> 100" by simp
  have front: "take (min (length cs) 100) ?hs = take 100 ?es"
    by (simp add: min_def)
  from assms(1) have "hd ?es = entry_of (last cs)" by (simp add: hd_rev last_map)
  moreover from assms(1) have "?hs ! 0 = hd ?es" by (simp add: nth_append hd_conv_nth)
  ultimately have head: "?hs ! 0 = entry_of (last cs)" by simp
  have full: "length cs = 101 \<and> getWorkoutHistory st = JArr [] \<longrightarrow> length ?hs = 100"
    by simp
  from stored len front head full show ?thesis by blast
qed

text \<open>101 workouts completed on the empty store.\<close>

theorem addWorkoutToHistory_101_calls:
  "\<exists>hs. getWorkoutHistory (snd (addWorkouts sample_workouts empty_store)) = JArr hs \<and>
         length hs = 100 \<and>
         hs ! 0 = entry_of (sample_completion 100)"
proof -
  have start: "getWorkoutHistory empty_store = JArr []"
    by (simp add: getWorkoutHistory_def empty_store_def)
  have ne: "sample_workouts \<noteq> []" by (simp add: sample_workouts_def)
  have ok: "list_all (\<lambda>r. r \<noteq> None) (fst (addWorkouts sample_workouts empty_store))"
    using addWorkouts_on_list [OF start, of sample_workouts] by (simp add: list_all_iff)
  have n: "length sample_workouts = 101" by (simp add: sample_workouts_def)
  have l: "last sample_workouts = sample_completion 100"
    unfolding sample_workouts_def by (simp add: last_map)
  from addWorkoutToHistory_newest_first_capped [OF ne ok]
  obtain hs where hs: "getWorkoutHistory (snd (addWorkouts sample_workouts empty_store)) = JArr hs"
    and head: "hs ! 0 = entry_of (last sample_workouts)"
    and full: "length sample_workouts = 101 \<and> getWorkoutHistory empty_store = JArr []
                 \<longrightarrow> length hs = 100"
    by blast
  from full n start have "length hs = 100" by blast
  with hs head l show ?thesis by simp
qed

section \<open>Favourites: toggling\<close>

lemma indexOf_ge: "- 1 \<le> indexOf xs w"
  by (induction xs) (auto simp: Let_def)

lemma indexOf_absent: "indexOf xs w = - 1 \<longleftrightarrow> JStr w \<notin> set xs"
proof (induction xs)
  case Nil
  show ?case by simp
next
  case (Cons x xs)
  have "- 1 \<le> indexOf xs w" by (rule indexOf_ge)
  with Cons show ?case by (auto simp: Let_def)
qed

text \<open>Removing the element at the index that \<open>indexOf\<close> found removes the first occurrence.\<close>

lemma without_indexOf:
  "JStr w \<in> set xs \<Longrightarrow> without (nat (indexOf xs w)) xs = remove1 (JStr w) xs"
proof (induction xs)
  case Nil
  then show ?case by simp
next
  case (Cons x xs)
  show ?case
  proof (cases "x = JStr w")
    case True
    then show ?thesis by (simp add: without_def)
  next
    case False
    with Cons.prems have mem: "JStr w \<in> set xs" by simp
    then have ne: "indexOf xs w \<noteq> - 1" by (simp add: indexOf_absent)
    moreover have "- 1 \<le> indexOf xs w" by (rule indexOf_ge)
    ultimately have pos: "0 \<le> indexOf xs w" by arith
    then have "nat (indexOf xs w + 1) = Suc (nat (indexOf xs w))" by simp
    with False ne Cons.IH[OF mem] show ?thesis
      by (simp add: without_def Let_def)
  qed
qed

lemma toggle_absent:
  assumes "getFavorites st = JArr favs" "JStr w \<notin> set favs"
  shows "toggleFavorite w st = (True, st\<lparr>FAVORITES := JsonText (JArr (favs @ [JStr w]))\<rparr>)"
  using assms by (simp add: toggleFavorite_def indexOf_absent Let_def)

lemma toggle_present:
  assumes "getFavorites st = JArr favs" "JStr w \<in> set favs"
  shows "toggleFavorite w st =
           (False, st\<lparr>FAVORITES := JsonText (JArr (remove1 (JStr w) favs))\<rparr>)"
  using assms by (simp add: toggleFavorite_def indexOf_absent without_indexOf Let_def)

lemma getFavorites_written: "getFavorites (st\<lparr>FAVORITES := JsonText v\<rparr>) = v"
  by (simp add: getFavorites_def)

lemma getFavorites_empty_store: "getFavorites empty_store = JArr []"
  by (simp add: getFavorites_def empty_store_def)

text \<open>
  C6. When the stored favourites are a list: toggling a name that is not in the list
  returns \<open>true\<close> and stores the list with the name appended; toggling a name that is in
  the list returns \<open>false\<close> and stores the list without the first occurrence of the name.
\<close>

theorem toggleFavorite_adds_or_removes:
  assumes "getFavorites st = JArr favs"
  shows "(JStr w \<notin> set favs \<longrightarrow>
            fst (toggleFavorite w st) = True \<and>
            getFavorites (snd (toggleFavorite w st)) = JArr (favs @ [JStr w])) \<and>
         (JStr w \<in> set favs \<longrightarrow>
            fst (toggleFavorite w st) = False \<and>
            getFavorites (snd (toggleFavorite w st)) = JArr (remove1 (JStr w) favs))"
  using assms by (simp add: toggle_absent toggle_present getFavorites_written)

text \<open>
  On the empty store, \<open>toggleFavorite("Leg Day")\<close> returns \<open>true\<close> and leaves
  \<open>["Leg Day"]\<close>; called again it returns \<open>false\<close> and leaves \<open>[]\<close>.
\<close>

theorem toggleFavorite_leg_day:
  "fst (toggleFavorite ''Leg Day'' empty_store) = True \<and>
   getFavorites (snd (toggleFavorite ''Leg Day'' empty_store)) = JArr [JStr ''Leg Day''] \<and>
   fst (toggleFavorite ''Leg Day'' (snd (toggleFavorite ''Leg Day'' empty_store))) = False \<and>
   getFavorites (snd (toggleFavorite ''Leg Day'' (snd (toggleFavorite ''Leg Day'' empty_store))))
     = JArr []"
proof -
  have first:
    "fst (toggleFavorite ''Leg Day'' empty_store) = True \<and>
     getFavorites (snd (toggleFavorite ''Leg Day'' empty_store)) = JArr [JStr ''Leg Day'']"
    using toggleFavorite_adds_or_removes [OF getFavorites_empty_store, of "''Leg Day''"]
    by simp
  then have stored:
    "getFavorites (snd (toggleFavorite ''Leg Day'' empty_store)) = JArr [JStr ''Leg Day'']"
    by simp
  show ?thesis
    using first toggleFavorite_adds_or_removes [OF stored, of "''Leg Day''"] by simp
qed

text \<open>
  C8. When the stored favourites are a list without duplicates, the list stored by
  \<open>toggleFavorite\<close> has no duplicates either.
\<close>

theorem toggleFavorite_keeps_distinct:
  assumes "getFavorites st = JArr favs" and "distinct favs"
  shows "\<exists>favs'. getFavorites (snd (toggleFavorite w st)) = JArr favs' \<and> distinct favs'"
proof (cases "JStr w \<in> set favs")
  case True
  with assms show ?thesis by (simp add: toggle_present getFavorites_written)
next
  case False
  with assms show ?thesis by (simp add: toggle_absent getFavorites_written)
qed

theorem toggleFavorite_keeps_distinct_sample:
  "\<exists>favs'. getFavorites (snd (toggleFavorite ''Leg Day'' two_favorites)) = JArr favs' \<and>
            distinct favs'"
proof -
  have stored: "getFavorites two_favorites = JArr [JStr ''Leg Day'', JStr ''Push'']"
    by (simp add: getFavorites_def two_favorites_def)
  have "distinct [JStr ''Leg Day'', JStr ''Push'']" by simp
  with stored show ?thesis by (rule toggleFavorite_keeps_distinct)
qed

end
